theory Spec2Isabelle
  imports Complex_Main "HOL-Library.Log_Nat" "HOL-Library.Sublist"
begin

section \<open>The download list of \<open>search-downloads.tsx\<close>\<close>

text \<open>
  A shallow embedding of \<open>src/search-downloads.tsx\<close>. JavaScript numbers are read as the
  numbers they stand for: \<open>id\<close> and \<open>size\<close> are integers, \<open>progress\<close> is a real number, and
  arithmetic on them is exact (the rounding of IEEE doubles is not modelled). Strings are
  \<open>string\<close>, one \<open>char\<close> for one code unit. The module \<open>./api\<close> and the packages
  \<open>@raycast/api\<close> and \<open>@raycast/utils\<close> are not part of the sources: the functions of
  \<open>./api\<close> are parameters (the record \<open>Api\<close>), showing a toast, writing the clipboard and
  refreshing are recorded as effects.
\<close>

subsection \<open>Data model\<close>

text \<open>\<open>DownloadType\<close> is imported from \<open>./api\<close>; its three values are the ones the source
  switches on (lines 44--51).\<close>

datatype DownloadType = TypeTorrent | TypeWebdl | TypeUsenet

record BaseDownload =
  id_d :: int
  name :: string
  size_d :: int
  progress :: real
  download_state :: string
  download_present :: bool
  download_finished :: bool
  created_at :: string
  updated_at :: string

record Torrent = BaseDownload +
  hash :: string
  download_speed :: real

record Download = BaseDownload +
  dtype :: DownloadType

text \<open>What a rejected promise carries: an \<open>Error\<close> with its message, or any other value
  (\<open>error instanceof Error\<close> tells them apart, lines 116 and 139).\<close>

datatype thrown = ThrownError string | ThrownOther

subsection \<open>Printing numbers\<close>

definition digit :: "nat \<Rightarrow> char" where
  "digit n = ''0123456789'' ! (n mod 10)"

function string_of_nat :: "nat \<Rightarrow> string" where
  "string_of_nat n =
     (if n < 10 then [digit n] else string_of_nat (n div 10) @ [digit (n mod 10)])"
  by pat_completeness auto
termination
  by (relation "measure id") auto

declare string_of_nat.simps [simp del]

text \<open>The text of an integer-valued number of magnitude below \<open>10 ^ 21\<close>, where all
  digits are printed; \<open>-0\<close> prints as \<open>0\<close>.\<close>

definition string_of_int :: "int \<Rightarrow> string" where
  "string_of_int n = (if n < 0 then ''-'' @ string_of_nat (nat (- n)) else string_of_nat (nat n))"

text \<open>\<open>Math.round\<close>: the nearest integer, a tie going up.\<close>

definition Math_round :: "real \<Rightarrow> int" where
  "Math_round x = \<lfloor>x + 1 / 2\<rfloor>"

text \<open>\<open>Math.floor(Math.log(n) / Math.log(k))\<close> for an integer \<open>n \<ge> 1\<close>, computed on
  integers; \<open>floor_log_ln\<close> below relates it to the logarithms.\<close>

function floor_log :: "nat \<Rightarrow> nat \<Rightarrow> nat" where
  "floor_log k n = (if k \<le> 1 \<or> n < k then 0 else Suc (floor_log k (n div k)))"
  by pat_completeness auto
termination
  by (relation "measure snd") auto

declare floor_log.simps [simp del]

text \<open>\<open>x.toFixed(2)\<close> for \<open>x \<ge> 0\<close>: the integer \<open>n\<close> with \<open>n / 100\<close> nearest to \<open>x\<close>, the
  larger one of two; the result stands for \<open>n / 100\<close>.\<close>

definition toFixed2 :: "real \<Rightarrow> nat" where
  "toFixed2 x = nat \<lfloor>x * 100 + 1 / 2\<rfloor>"

text \<open>\<open>parseFloat\<close> of the two-decimal text, printed again by \<open>+\<close>: the number \<open>n / 100\<close>
  without trailing zeros.\<close>

definition string_of_hundredths :: "nat \<Rightarrow> string" where
  "string_of_hundredths n =
     string_of_nat (n div 100) @
     (if n mod 100 = 0 then ''''
      else ''.'' @ [digit (n mod 100 div 10)] @ (if n mod 10 = 0 then '''' else [digit (n mod 10)]))"

subsection \<open>Presentation (lines 35--52 and 76--81)\<close>

definition sizes :: "string list" where
  "sizes = [''B'', ''KB'', ''MB'', ''GB'', ''TB'']"

text \<open>\<open>sizes[i]\<close> in a string concatenation: an index past the end reads \<open>undefined\<close>.\<close>

definition sizes_at :: "nat \<Rightarrow> string" where
  "sizes_at i = (if i < length sizes then sizes ! i else ''undefined'')"

text \<open>A negative count makes \<open>Math.log\<close> return \<open>NaN\<close>, and then every number of line 40
  is \<open>NaN\<close> and the index reads \<open>undefined\<close>.\<close>

definition formatBytes :: "int \<Rightarrow> string" where
  "formatBytes bytes =
     (if bytes = 0 then ''0 B''
      else if bytes < 0 then ''NaN undefined''
      else
        let k = 1024;
            i = floor_log k (nat bytes)
        in string_of_hundredths (toFixed2 (real_of_int bytes / real (k ^ i))) @ '' '' @ sizes_at i)"

fun getTypeLabel :: "DownloadType \<Rightarrow> string" where
  "getTypeLabel TypeTorrent = ''Torrent''"
| "getTypeLabel TypeWebdl = ''Web''"
| "getTypeLabel TypeUsenet = ''Usenet''"

datatype Color = Green | Orange

record StatusTag =
  tag_value :: string
  tag_color :: Color

definition getStatusTag :: "Download \<Rightarrow> StatusTag" where
  "getStatusTag download =
     (if download_finished download \<or> progress download \<ge> 1
      then \<lparr>tag_value = ''Ready'', tag_color = Green\<rparr>
      else \<lparr>tag_value = string_of_int (Math_round (progress download * 100)) @ ''%'',
             tag_color = Orange\<rparr>)"

subsection \<open>Aggregation (lines 54--74)\<close>

text \<open>The functions of \<open>./api\<close>, which the sources do not hold: what each call settles to,
  \<open>Inl\<close> for a rejected promise. \<open>fetchDownloads\<close> is one field for each of the three
  endpoints it is called with.\<close>

record Api =
  fetch_torrents :: "string \<Rightarrow> thrown + Torrent list"
  fetch_webdl :: "string \<Rightarrow> thrown + BaseDownload list"
  fetch_usenet :: "string \<Rightarrow> thrown + BaseDownload list"
  getDownloadLink :: "string \<Rightarrow> DownloadType \<Rightarrow> int \<Rightarrow> thrown + string"
  deleteDownload :: "string \<Rightarrow> DownloadType \<Rightarrow> int \<Rightarrow> thrown + unit"

text \<open>\<open>{ ...d, type }\<close>. The two extra fields of a torrent stay on the object at run time;
  the type \<open>Download\<close> does not have them and nothing reads them.\<close>

definition addType :: "'a BaseDownload_scheme list \<Rightarrow> DownloadType \<Rightarrow> Download list" where
  "addType downloads ty =
     map (\<lambda>d. \<lparr>id_d = id_d d, name = name d, size_d = size_d d, progress = progress d,
               download_state = download_state d, download_present = download_present d,
               download_finished = download_finished d, created_at = created_at d,
               updated_at = updated_at d, dtype = ty\<rparr>) downloads"

text \<open>\<open>Promise.all\<close> of three promises: the three values when all are fulfilled, a rejection
  when one is rejected. When several are rejected the one that settles first decides the
  reason; the model takes the first in array order.\<close>

definition Promise_all3 ::
    "thrown + 'a \<Rightarrow> thrown + 'b \<Rightarrow> thrown + 'c \<Rightarrow> thrown + 'a \<times> 'b \<times> 'c" where
  "Promise_all3 p q r =
     (case p of
        Inl e \<Rightarrow> Inl e
      | Inr a \<Rightarrow>
          (case q of
             Inl e \<Rightarrow> Inl e
           | Inr b \<Rightarrow> (case r of Inl e \<Rightarrow> Inl e | Inr c \<Rightarrow> Inr (a, b, c))))"

text \<open>\<open>Array.prototype.sort\<close> with a comparator. A comparator returns a number, \<open>None\<close>
  standing for \<open>NaN\<close>, which the sort reads as \<open>+0\<close>. The sort is stable: an element moves
  behind a later one only when the comparator is positive on the pair. ECMAScript fixes the
  result when the comparator is consistent, which is the case here when every timestamp
  parses; outside of that the order is left to the engine, and the model is the insertion
  sort.\<close>

definition sortCompare :: "('a \<Rightarrow> 'a \<Rightarrow> int option) \<Rightarrow> 'a \<Rightarrow> 'a \<Rightarrow> int" where
  "sortCompare cmp x y = (case cmp x y of None \<Rightarrow> 0 | Some v \<Rightarrow> v)"

fun insert_sorted :: "('a \<Rightarrow> 'a \<Rightarrow> int option) \<Rightarrow> 'a \<Rightarrow> 'a list \<Rightarrow> 'a list" where
  "insert_sorted cmp x [] = [x]"
| "insert_sorted cmp x (y # ys) =
     (if sortCompare cmp x y > 0 then y # insert_sorted cmp x ys else x # y # ys)"

definition array_sort :: "('a \<Rightarrow> 'a \<Rightarrow> int option) \<Rightarrow> 'a list \<Rightarrow> 'a list" where
  "array_sort cmp xs = foldr (insert_sorted cmp) xs []"

text \<open>The comparator of line 71. \<open>getTime s\<close> is \<open>new Date(s).getTime()\<close>, a parameter:
  the milliseconds of the date, \<open>None\<close> (\<open>NaN\<close>) when the text is not a date.\<close>

definition byCreatedDesc :: "(string \<Rightarrow> int option) \<Rightarrow> Download \<Rightarrow> Download \<Rightarrow> int option" where
  "byCreatedDesc getTime a b =
     (case (getTime (created_at b), getTime (created_at a)) of
        (Some tb, Some ta) \<Rightarrow> Some (tb - ta)
      | _ \<Rightarrow> None)"

text \<open>Lines 65--69.\<close>

definition allDownloads ::
    "Torrent list \<Rightarrow> BaseDownload list \<Rightarrow> BaseDownload list \<Rightarrow> Download list" where
  "allDownloads torrents webDownloads usenetDownloads =
     addType torrents TypeTorrent @ addType webDownloads TypeWebdl @
     addType usenetDownloads TypeUsenet"

definition fetchAllDownloads ::
    "(string \<Rightarrow> int option) \<Rightarrow> Api \<Rightarrow> string \<Rightarrow> thrown + Download list" where
  "fetchAllDownloads getTime api apiKey =
     (case Promise_all3 (fetch_torrents api apiKey) (fetch_webdl api apiKey)
             (fetch_usenet api apiKey) of
        Inl e \<Rightarrow> Inl e
      | Inr (torrents, webDownloads, usenetDownloads) \<Rightarrow>
          Inr (array_sort (byCreatedDesc getTime)
                 (allDownloads torrents webDownloads usenetDownloads)))"

subsection \<open>One row and its actions (lines 83--149)\<close>

datatype ToastStyle = Animated | Success | Failure

record Toast =
  toast_style :: ToastStyle
  toast_title :: string
  toast_message :: "string option"

text \<open>What a handler does, in order. \<open>showToast\<close> and \<open>Clipboard.copy\<close> are taken not to
  reject, and \<open>onRefresh\<close> not to throw.\<close>

datatype effect =
    ShowToast Toast
  | CallGetDownloadLink string DownloadType int
  | ClipboardCopy string
  | CallDeleteDownload string DownloadType int
  | OnRefresh

text \<open>\<open>error instanceof Error ? error.message : "Unknown error"\<close>\<close>

definition error_message :: "thrown \<Rightarrow> string" where
  "error_message e = (case e of ThrownError m \<Rightarrow> m | ThrownOther \<Rightarrow> ''Unknown error'')"

text \<open>The handler of lines 106--119.\<close>

definition copyLinkAction :: "Api \<Rightarrow> string \<Rightarrow> Download \<Rightarrow> effect list" where
  "copyLinkAction api apiKey download =
     ShowToast \<lparr>toast_style = Animated, toast_title = ''Getting download link...'',
                toast_message = None\<rparr> #
     CallGetDownloadLink apiKey (dtype download) (id_d download) #
     (case getDownloadLink api apiKey (dtype download) (id_d download) of
        Inr link \<Rightarrow>
          [ClipboardCopy link,
           ShowToast \<lparr>toast_style = Success, toast_title = ''Download link copied!'',
                      toast_message = None\<rparr>]
      | Inl e \<Rightarrow>
          [ShowToast \<lparr>toast_style = Failure, toast_title = ''Failed to get download link'',
                      toast_message = Some (error_message e)\<rparr>])"

text \<open>The handler of lines 129--142.\<close>

definition deleteAction :: "Api \<Rightarrow> string \<Rightarrow> Download \<Rightarrow> effect list" where
  "deleteAction api apiKey download =
     ShowToast \<lparr>toast_style = Animated, toast_title = ''Deleting download...'',
                toast_message = None\<rparr> #
     CallDeleteDownload apiKey (dtype download) (id_d download) #
     (case deleteDownload api apiKey (dtype download) (id_d download) of
        Inr u \<Rightarrow>
          [ShowToast \<lparr>toast_style = Success, toast_title = ''Download deleted'',
                      toast_message = None\<rparr>,
           OnRefresh]
      | Inl e \<Rightarrow>
          [ShowToast \<lparr>toast_style = Failure, toast_title = ''Failed to delete download'',
                      toast_message = Some (error_message e)\<rparr>])"

record Action =
  action_title :: string
  destructive :: bool
  shortcut :: "(string \<times> string) option"
  onAction :: "effect list"

record ListItem =
  item_title :: string
  item_subtitle :: string
  accessories :: "StatusTag list"
  actions :: "Action list list"

text \<open>The two sections of the action panel. \<open>isReady && ...\<close> leaves the first section
  empty when the download is not ready. The separator of the subtitle is the two code units
  the source file has between the spaces.\<close>

definition DownloadListItem :: "Api \<Rightarrow> string \<Rightarrow> Download \<Rightarrow> ListItem" where
  "DownloadListItem api apiKey download =
     (let statusTag = getStatusTag download;
          isReady = (download_finished download \<or> progress download \<ge> 1)
      in \<lparr>item_title = name download,
           item_subtitle =
             formatBytes (size_d download) @ '' '' @ [CHR 0xC2, CHR 0xB7] @ '' '' @
             getTypeLabel (dtype download),
           accessories = [\<lparr>tag_value = tag_value statusTag, tag_color = tag_color statusTag\<rparr>],
           actions =
             [if isReady
              then [\<lparr>action_title = ''Copy Download Link'', destructive = False,
                      shortcut = None, onAction = copyLinkAction api apiKey download\<rparr>]
              else [],
              [\<lparr>action_title = ''Refresh All Downloads'', destructive = False,
                 shortcut = Some (''cmd'', ''r''), onAction = [OnRefresh]\<rparr>,
               \<lparr>action_title = ''Delete Download'', destructive = True,
                 shortcut = Some (''ctrl'', ''x''),
                 onAction = deleteAction api apiKey download\<rparr>]]\<rparr>)"

subsection \<open>The command (lines 151--197)\<close>

text \<open>\<open>String.prototype.toLowerCase\<close> on the letters \<open>A\<close> to \<open>Z\<close>; other code units
  are kept.\<close>

definition lower_char :: "char \<Rightarrow> char" where
  "lower_char c =
     (let n = (of_char c :: nat) in if 65 \<le> n \<and> n \<le> 90 then char_of (n + 32) else c)"

definition toLowerCase :: "string \<Rightarrow> string" where
  "toLowerCase s = map lower_char s"

text \<open>\<open>s.includes(t)\<close>: \<open>t\<close> occurs in \<open>s\<close> as a contiguous part.\<close>

definition includes_str :: "string \<Rightarrow> string \<Rightarrow> bool" where
  "includes_str s t = sublist t s"

text \<open>What \<open>useCachedPromise\<close> returns.\<close>

record AsyncState =
  hook_data :: "Download list option"
  hook_isLoading :: bool
  hook_error :: "thrown option"

text \<open>Lines 159--168.\<close>

definition filteredDownloads :: "Download list option \<Rightarrow> string \<Rightarrow> Download list" where
  "filteredDownloads data searchText =
     (case data of
        None \<Rightarrow> []
      | Some ds \<Rightarrow>
          if length searchText = 0 then ds
          else
            let searchLower = toLowerCase searchText
            in filter (\<lambda>download. includes_str (toLowerCase (name download)) searchLower) ds)"

definition type_text :: "DownloadType \<Rightarrow> string" where
  "type_text ty = (case ty of TypeTorrent \<Rightarrow> ''torrent'' | TypeWebdl \<Rightarrow> ''webdl''
     | TypeUsenet \<Rightarrow> ''usenet'')"

record View =
  view_isLoading :: bool
  section_title :: string
  section_subtitle :: string
  rows :: "(string \<times> ListItem) list"

text \<open>One render of \<open>Command\<close>: the toasts it shows and the list it returns. The API key
  of the preferences, the state of the hook and the search text are arguments. The message of
  line 174 is that of an \<open>Error\<close>; any other value has none (and is taken to be
  truthy).\<close>

definition Command :: "Api \<Rightarrow> string \<Rightarrow> AsyncState \<Rightarrow> string \<Rightarrow> effect list \<times> View" where
  "Command api apiKey st searchText =
     (let filtered = filteredDownloads (hook_data st) searchText
      in ((case hook_error st of
             None \<Rightarrow> []
           | Some e \<Rightarrow>
               [ShowToast \<lparr>toast_style = Failure, toast_title = ''Failed to fetch downloads'',
                  toast_message = (case e of ThrownError m \<Rightarrow> Some m | ThrownOther \<Rightarrow> None)\<rparr>]),
          \<lparr>view_isLoading = hook_isLoading st,
           section_title = (if searchText \<noteq> [] then ''Search Results'' else ''All Downloads''),
           section_subtitle = string_of_nat (length filtered),
           rows = map (\<lambda>download.
                    (type_text (dtype download) @ ''-'' @ string_of_int (id_d download),
                     DownloadListItem api apiKey download)) filtered\<rparr>))"

text \<open>Modelled from the spec: the hook \<open>useCachedPromise\<close> of the package
  \<open>@raycast/utils\<close>, called with \<open>keepPreviousData: true\<close> (lines 155--157), is not in the
  sources. Section 4.5 of the specification gives its transitions: on mount the items are
  absent and loading is set; a refresh sets loading and keeps the items; a fetch that
  succeeds stores the items and clears the error; one that fails sets the error and keeps
  the items it held.\<close>

definition hook_mount :: AsyncState where
  "hook_mount = \<lparr>hook_data = None, hook_isLoading = True, hook_error = None\<rparr>"

definition hook_revalidate :: "AsyncState \<Rightarrow> AsyncState" where
  "hook_revalidate st = st\<lparr>hook_isLoading := True\<rparr>"

definition hook_settle :: "AsyncState \<Rightarrow> thrown + Download list \<Rightarrow> AsyncState" where
  "hook_settle st r =
     (case r of
        Inr ds \<Rightarrow> \<lparr>hook_data = Some ds, hook_isLoading = False, hook_error = None\<rparr>
      | Inl e \<Rightarrow> st\<lparr>hook_isLoading := False, hook_error := Some e\<rparr>)"

subsection \<open>Sample values\<close>

text \<open>Records, a date parser and a remote service to run the definitions on. The three
  dates are midnight UTC of the first three days of 2024, in milliseconds.\<close>

definition sample_download :: "int \<Rightarrow> string \<Rightarrow> real \<Rightarrow> bool \<Rightarrow> string \<Rightarrow> BaseDownload" where
  "sample_download i n p fin c =
     \<lparr>id_d = i, name = n, size_d = 1536, progress = p, download_state = ''downloading'',
      download_present = fin, download_finished = fin, created_at = c, updated_at = c\<rparr>"

definition sample_torrent :: "int \<Rightarrow> string \<Rightarrow> real \<Rightarrow> bool \<Rightarrow> string \<Rightarrow> Torrent" where
  "sample_torrent i n p fin c =
     \<lparr>id_d = i, name = n, size_d = 1536, progress = p, download_state = ''downloading'',
      download_present = fin, download_finished = fin, created_at = c, updated_at = c,
      hash = ''0a1b'', download_speed = 0\<rparr>"

definition sample_tagged :: "int \<Rightarrow> string \<Rightarrow> real \<Rightarrow> bool \<Rightarrow> string \<Rightarrow> DownloadType \<Rightarrow> Download" where
  "sample_tagged i n p fin c ty =
     \<lparr>id_d = i, name = n, size_d = 1536, progress = p, download_state = ''downloading'',
      download_present = fin, download_finished = fin, created_at = c, updated_at = c,
      dtype = ty\<rparr>"

definition sample_getTime :: "string \<Rightarrow> int option" where
  "sample_getTime s =
     (if s = ''2024-01-01'' then Some 1704067200000
      else if s = ''2024-01-02'' then Some 1704153600000
      else if s = ''2024-01-03'' then Some 1704240000000
      else None)"

definition sample_api ::
    "thrown + Torrent list \<Rightarrow> thrown + BaseDownload list \<Rightarrow> thrown + BaseDownload list \<Rightarrow>
     thrown + unit \<Rightarrow> Api" where
  "sample_api t w u del =
     \<lparr>fetch_torrents = (\<lambda>apiKey. t), fetch_webdl = (\<lambda>apiKey. w), fetch_usenet = (\<lambda>apiKey. u),
      getDownloadLink = (\<lambda>apiKey ty i. Inr ''https://example.org/file''),
      deleteDownload = (\<lambda>apiKey ty i. del)\<rparr>"

section \<open>Properties\<close>

subsection \<open>Numbers and their text\<close>

lemma floor_log_floorlog: "1 < k \<Longrightarrow> 0 < n \<Longrightarrow> Suc (floor_log k n) = floorlog k n"
proof (induction k n rule: floor_log.induct)
  case (1 k n)
  show ?case
  proof (cases "n < k")
    case True
    with "1.prems" have "floorlog k n = 1"
      by (subst compute_floorlog) (simp add: compute_floorlog [of k 0])
    with True show ?thesis by (simp add: floor_log.simps [of k n])
  next
    case False
    with "1.prems" have pos: "0 < n div k" by (simp add: div_greater_zero_iff)
    from False "1.prems" have "Suc (floor_log k (n div k)) = floorlog k (n div k)"
      using "1.IH" pos by simp
    moreover have "floorlog k n = floorlog k (n div k) + 1"
      using "1.prems" by (subst compute_floorlog) simp
    ultimately show ?thesis using False "1.prems" by (simp add: floor_log.simps [of k n])
  qed
qed

text \<open>\<open>floor_log 1024\<close> is the index that line 39 computes, on exact logarithms.\<close>

lemma floor_log_ln: "1 \<le> n \<Longrightarrow> int (floor_log 1024 n) = \<lfloor>ln (real n) / ln 1024\<rfloor>"
proof -
  assume n: "1 \<le> n"
  then have "Suc (floor_log 1024 n) = floorlog 1024 n"
    by (intro floor_log_floorlog) simp_all
  with n have "Suc (floor_log 1024 n) = nat \<lfloor>log 1024 (real n)\<rfloor> + 1"
    by (simp add: floorlog_def)
  then have "floor_log 1024 n = nat \<lfloor>log 1024 (real n)\<rfloor>" by simp
  moreover have "0 \<le> log 1024 (real n)" using n by simp
  ultimately have "int (floor_log 1024 n) = \<lfloor>log 1024 (real n)\<rfloor>" by simp
  then show ?thesis by (simp add: log_def)
qed

lemma formatBytes_pos:
  "0 < bytes \<Longrightarrow> formatBytes bytes =
     string_of_hundredths
       (toFixed2 (real_of_int bytes / real ((1024::nat) ^ floor_log 1024 (nat bytes)))) @
     '' '' @ sizes_at (floor_log 1024 (nat bytes))"
  by (simp add: formatBytes_def Let_def)

lemmas eval_text =
  toFixed2_def string_of_hundredths_def string_of_nat.simps string_of_int_def digit_def
  sizes_at_def sizes_def Math_round_def

subsection \<open>Sizes\<close>

lemma formatBytes_zero: "formatBytes 0 = ''0 B''"
  by (simp add: formatBytes_def)

lemma formatBytes_1536: "formatBytes 1536 = ''1.5 KB''"
proof -
  have "floor_log 1024 1536 = 1" by (simp add: floor_log.simps)
  then show ?thesis by (simp add: formatBytes_pos eval_text)
qed

lemma formatBytes_1048576: "formatBytes 1048576 = ''1 MB''"
proof -
  have "floor_log 1024 1048576 = 2" by (simp add: floor_log.simps)
  then show ?thesis by (simp add: formatBytes_pos eval_text)
qed

lemma floor_log_less: "1 < k \<Longrightarrow> 0 < n \<Longrightarrow> n < k ^ m \<Longrightarrow> floor_log k n < m"
proof -
  assume k: "1 < k" and n: "0 < n" and lt: "n < k ^ m"
  then have "floorlog k n \<le> m" by (simp add: floorlog_le_iff)
  with floor_log_floorlog [OF k n] show ?thesis by simp
qed

lemma floor_log_ge: "1 < k \<Longrightarrow> k ^ m \<le> n \<Longrightarrow> m \<le> floor_log k n"
proof -
  assume k: "1 < k" and le: "k ^ m \<le> n"
  from k have "0 < k ^ m" by simp
  with le have n: "0 < n" by linarith
  from le k have "Suc m \<le> floorlog k n" by (rule floorlog_ge_SucI)
  with floor_log_floorlog [OF k n] show ?thesis by simp
qed

text \<open>Below \<open>1024 ^ 5\<close> bytes the unit is one of the five of the list.\<close>

lemma formatBytes_unit_listed:
  assumes "0 \<le> bytes" and "bytes < 1024 ^ 5"
  shows "\<exists>s u. u \<in> set sizes \<and> formatBytes bytes = s @ '' '' @ u"
proof (cases "bytes = 0")
  case True
  have "''B'' \<in> set sizes \<and> formatBytes 0 = ''0'' @ '' '' @ ''B''"
    by (simp add: formatBytes_def sizes_def)
  with True show ?thesis by blast
next
  case False
  with assms have pos: "0 < bytes" by simp
  from assms pos have "nat bytes < 1024 ^ 5" by (simp add: nat_less_iff)
  with pos have "floor_log 1024 (nat bytes) < 5" by (intro floor_log_less) simp_all
  then have "floor_log 1024 (nat bytes) < length sizes" by (simp add: sizes_def)
  then have "sizes_at (floor_log 1024 (nat bytes)) \<in> set sizes"
    by (simp add: sizes_at_def)
  with formatBytes_pos [OF pos] show ?thesis by blast
qed

text \<open>From \<open>1024 ^ 5\<close> bytes on the index is past the list, and the text ends in
  \<open>undefined\<close>: nothing in lines 35--41 bounds the index.\<close>

lemma formatBytes_unit_undefined:
  assumes "1024 ^ 5 \<le> bytes"
  shows "\<exists>s. formatBytes bytes = s @ '' undefined''"
proof -
  from assms have pos: "0 < bytes" by simp
  from assms have "(1024::nat) ^ 5 \<le> nat bytes" by (simp add: le_nat_iff)
  then have "5 \<le> floor_log 1024 (nat bytes)" by (intro floor_log_ge) simp_all
  then have "sizes_at (floor_log 1024 (nat bytes)) = ''undefined''"
    by (simp add: sizes_at_def sizes_def)
  with formatBytes_pos [OF pos] show ?thesis by simp
qed

text \<open>
  C1. The claim: for every non-negative byte count the unit of \<open>formatBytes\<close> is one of B,
  KB, MB, GB, TB, the index being clamped to the list. The three values the claim names are
  \<open>formatBytes_zero\<close>, \<open>formatBytes_1536\<close> and \<open>formatBytes_1048576\<close>, and below
  \<open>1024 ^ 5\<close> the unit is in the list (\<open>formatBytes_unit_listed\<close>). The index is not
  clamped: at \<open>2 ^ 55\<close> bytes (32 times \<open>1024 ^ 5\<close>) it is 5, one past the last unit, and the
  function returns the text \<open>32 undefined\<close>.
\<close>

theorem formatBytes_beyond_TB: "formatBytes 36028797018963968 = ''32 undefined''"
proof -
  have "floor_log 1024 36028797018963968 = 5" by (simp add: floor_log.simps)
  then show ?thesis by (simp add: formatBytes_pos eval_text)
qed

subsection \<open>Status\<close>

lemma append_percent_not_Ready: "s @ ''%'' \<noteq> ''Ready''"
proof
  assume "s @ ''%'' = ''Ready''"
  then have "last (s @ ''%'') = last ''Ready''" by (rule arg_cong)
  then show False by simp
qed


lemma getStatusTag_forty:
  "getStatusTag (sample_tagged 2 ''debian.iso'' (2 / 5) False ''2024-01-03'' TypeWebdl) =
     \<lparr>tag_value = ''40%'', tag_color = Orange\<rparr>"
  by (simp add: getStatusTag_def sample_tagged_def eval_text)

lemma getStatusTag_tie_rounds_up:
  "tag_value (getStatusTag (sample_tagged 2 ''debian.iso'' (57 / 200) False ''2024-01-03''
     TypeWebdl)) = ''29%''"
  by (simp add: getStatusTag_def sample_tagged_def eval_text)

lemma getStatusTag_progress_one:
  "getStatusTag (sample_tagged 1 ''film'' 1 False ''2024-01-02'' TypeTorrent) =
     \<lparr>tag_value = ''Ready'', tag_color = Green\<rparr>"
  by (simp add: getStatusTag_def sample_tagged_def)

subsection \<open>Sorting\<close>

lemma set_insert_sorted: "set (insert_sorted cmp x ys) = insert x (set ys)"
  by (induction ys) auto

lemma set_array_sort: "set (array_sort cmp xs) = set xs"
  by (induction xs) (simp_all add: array_sort_def set_insert_sorted)

lemma length_insert_sorted: "length (insert_sorted cmp x ys) = Suc (length ys)"
  by (induction ys) auto

lemma length_array_sort: "length (array_sort cmp xs) = length xs"
  by (induction xs) (simp_all add: array_sort_def length_insert_sorted)

lemma sortCompare_parsed:
  "getTime (created_at x) = Some a \<Longrightarrow> getTime (created_at y) = Some b \<Longrightarrow>
   sortCompare (byCreatedDesc getTime) x y = b - a"
  by (simp add: sortCompare_def byCreatedDesc_def)


text \<open>When every timestamp parses, the comparator is consistent and the sort is the stable
  sort of the library on the negated time.\<close>

lemma insert_sorted_insort_key:
  "getTime (created_at x) \<noteq> None \<Longrightarrow> \<forall>y \<in> set ys. getTime (created_at y) \<noteq> None \<Longrightarrow>
   insert_sorted (byCreatedDesc getTime) x ys =
     insort_key (\<lambda>d. - the (getTime (created_at d))) x ys"
proof (induction ys)
  case Nil
  then show ?case by simp
next
  case (Cons y ys)
  from Cons.prems obtain a b
    where ab: "getTime (created_at x) = Some a" "getTime (created_at y) = Some b"
    by auto
  from Cons have "insert_sorted (byCreatedDesc getTime) x ys =
     insort_key (\<lambda>d. - the (getTime (created_at d))) x ys" by simp
  with ab show ?case by (simp add: sortCompare_parsed [OF ab])
qed

lemma array_sort_sort_key:
  "\<forall>d \<in> set xs. getTime (created_at d) \<noteq> None \<Longrightarrow>
   array_sort (byCreatedDesc getTime) xs = sort_key (\<lambda>d. - the (getTime (created_at d))) xs"
proof (induction xs)
  case Nil
  then show ?case by (simp add: array_sort_def)
next
  case (Cons x xs)
  then have IH: "array_sort (byCreatedDesc getTime) xs =
      sort_key (\<lambda>d. - the (getTime (created_at d))) xs" by simp
  have "array_sort (byCreatedDesc getTime) (x # xs) =
      insert_sorted (byCreatedDesc getTime) x (array_sort (byCreatedDesc getTime) xs)"
    by (simp add: array_sort_def)
  also have "\<dots> = insort_key (\<lambda>d. - the (getTime (created_at d))) x
      (array_sort (byCreatedDesc getTime) xs)"
    using Cons.prems by (intro insert_sorted_insort_key) (simp_all add: set_array_sort)
  finally show ?case by (simp add: IH sort_key_def)
qed




subsection \<open>Aggregation\<close>

lemmas eval_fetch =
  fetchAllDownloads_def Promise_all3_def sample_api_def allDownloads_def addType_def
  array_sort_def sortCompare_def byCreatedDesc_def sample_getTime_def sample_torrent_def
  sample_download_def sample_tagged_def

text \<open>The scenario of the specification: a torrent of 2 January and a web download of
  3 January come out with the web download first.\<close>

lemma scenario_order:
  "fetchAllDownloads sample_getTime
     (sample_api (Inr [sample_torrent 1 ''film'' 1 False ''2024-01-02''])
        (Inr [sample_download 2 ''debian.iso'' (2 / 5) False ''2024-01-03'']) (Inr []) (Inr ()))
     ''key'' =
   Inr [sample_tagged 2 ''debian.iso'' (2 / 5) False ''2024-01-03'' TypeWebdl,
        sample_tagged 1 ''film'' 1 False ''2024-01-02'' TypeTorrent]"
  by (simp add: eval_fetch)

text \<open>
  C3, as stated: whenever the three fetches succeed, of two records of the result whose
  timestamps parse and differ, the later one comes first. A record whose timestamp does not
  parse makes the comparator return \<open>NaN\<close> against every other record, and the records on
  its two sides are never compared: fetched in the order 1 January, an unparseable date,
  2 January, they stay in that order, the earlier record before the later one. (The run
  detection of V8 leaves this array as it is, too.)
\<close>

theorem sorted_desc_counterexample:
  "fetchAllDownloads sample_getTime
     (sample_api (Inr [])
        (Inr [sample_download 1 ''first'' 1 True ''2024-01-01'',
              sample_download 2 ''second'' 1 True ''soon'',
              sample_download 3 ''third'' 1 True ''2024-01-02''])
        (Inr []) (Inr ())) ''key'' =
     Inr [sample_tagged 1 ''first'' 1 True ''2024-01-01'' TypeWebdl,
          sample_tagged 2 ''second'' 1 True ''soon'' TypeWebdl,
          sample_tagged 3 ''third'' 1 True ''2024-01-02'' TypeWebdl] \<and>
   sample_getTime (created_at (sample_tagged 1 ''first'' 1 True ''2024-01-01'' TypeWebdl)) =
     Some 1704067200000 \<and>
   sample_getTime (created_at (sample_tagged 3 ''third'' 1 True ''2024-01-02'' TypeWebdl)) =
     Some 1704153600000 \<and>
   (1704067200000 :: int) < 1704153600000"
  by (simp add: eval_fetch)

text \<open>
  C3, amended: whenever the three fetches succeed and the timestamp of every record of the
  result parses, of two records of the result with different timestamps the later one
  comes first.
\<close>

theorem fetchAllDownloads_sorted_desc:
  assumes "fetchAllDownloads getTime api apiKey = Inr out"
    and "\<forall>d \<in> set out. getTime (created_at d) \<noteq> None"
    and "i < length out" and "j < length out"
    and "getTime (created_at (out ! i)) = Some a"
    and "getTime (created_at (out ! j)) = Some b"
    and "b < a"
  shows "i < j"
proof (rule ccontr)
  let ?f = "\<lambda>d. - the (getTime (created_at d))"
  assume "\<not> i < j"
  then have ji: "j \<le> i" by simp
  from assms(1) obtain xs where out: "out = array_sort (byCreatedDesc getTime) xs"
    by (auto simp: fetchAllDownloads_def split: sum.splits prod.splits)
  with assms(2) have "\<forall>d \<in> set xs. getTime (created_at d) \<noteq> None"
    by (simp add: set_array_sort)
  then have "out = sort_key ?f xs" unfolding out by (rule array_sort_sort_key)
  then have "sorted (map ?f out)" by simp
  with ji assms(3) have "map ?f out ! j \<le> map ?f out ! i"
    by (simp only: sorted_iff_nth_mono length_map)
  with assms(3,4) have "?f (out ! j) \<le> ?f (out ! i)" by simp
  with assms(5,6) have "a \<le> b" by simp
  with assms(7) show False by simp
qed

theorem fetchAllDownloads_sorted_desc_witness:
  "fetchAllDownloads sample_getTime
     (sample_api (Inr [sample_torrent 1 ''film'' 1 False ''2024-01-02''])
        (Inr [sample_download 2 ''debian.iso'' (2 / 5) False ''2024-01-03'']) (Inr []) (Inr ()))
     ''key'' =
   Inr [sample_tagged 2 ''debian.iso'' (2 / 5) False ''2024-01-03'' TypeWebdl,
        sample_tagged 1 ''film'' 1 False ''2024-01-02'' TypeTorrent] \<and>
   sample_getTime (created_at (sample_tagged 2 ''debian.iso'' (2 / 5) False ''2024-01-03''
     TypeWebdl)) = Some 1704240000000 \<and>
   sample_getTime (created_at (sample_tagged 1 ''film'' 1 False ''2024-01-02'' TypeTorrent)) =
     Some 1704153600000 \<and>
   (1704153600000 :: int) < 1704240000000 \<and> (0 :: nat) < 1"
proof -
  have "(0 :: nat) < 1"
    by (rule fetchAllDownloads_sorted_desc [OF scenario_order, of 0 1 1704240000000 1704153600000])
      (simp_all add: sample_getTime_def sample_tagged_def)
  then show ?thesis
    by (simp add: scenario_order) (simp add: sample_getTime_def sample_tagged_def)
qed




text \<open>
  C5. \<open>fetchAllDownloads\<close> is all or nothing: it fails exactly when one of the three
  fetches fails, and then with the error of a failed fetch and no list; it returns a list
  exactly when all three succeed, the sorted concatenation of the three tagged lists.
\<close>

theorem fetchAllDownloads_all_or_nothing:
  "((\<exists>e. fetchAllDownloads getTime api apiKey = Inl e) =
      (isl (fetch_torrents api apiKey) \<or> isl (fetch_webdl api apiKey) \<or>
       isl (fetch_usenet api apiKey))) \<and>
   (\<forall>e. fetchAllDownloads getTime api apiKey = Inl e \<longrightarrow>
      fetch_torrents api apiKey = Inl e \<or> fetch_webdl api apiKey = Inl e \<or>
      fetch_usenet api apiKey = Inl e) \<and>
   ((\<exists>ds. fetchAllDownloads getTime api apiKey = Inr ds) =
      (\<exists>ts ws us. fetch_torrents api apiKey = Inr ts \<and> fetch_webdl api apiKey = Inr ws \<and>
         fetch_usenet api apiKey = Inr us)) \<and>
   (\<forall>ts ws us. fetch_torrents api apiKey = Inr ts \<and> fetch_webdl api apiKey = Inr ws \<and>
         fetch_usenet api apiKey = Inr us \<longrightarrow>
      fetchAllDownloads getTime api apiKey =
        Inr (array_sort (byCreatedDesc getTime) (allDownloads ts ws us)))"
  by (auto simp: fetchAllDownloads_def Promise_all3_def split: sum.splits)

theorem fetchAllDownloads_all_or_nothing_witness:
  "fetch_webdl (sample_api (Inr [sample_torrent 1 ''film'' 1 False ''2024-01-02''])
       (Inl (ThrownError ''timeout'')) (Inr []) (Inr ())) ''key'' = Inl (ThrownError ''timeout'') \<and>
   fetchAllDownloads sample_getTime
     (sample_api (Inr [sample_torrent 1 ''film'' 1 False ''2024-01-02''])
       (Inl (ThrownError ''timeout'')) (Inr []) (Inr ())) ''key'' = Inl (ThrownError ''timeout'') \<and>
   fetchAllDownloads sample_getTime
     (sample_api (Inr [sample_torrent 1 ''film'' 1 False ''2024-01-02''])
       (Inr [sample_download 2 ''debian.iso'' (2 / 5) False ''2024-01-03'']) (Inr []) (Inr ()))
     ''key'' =
     Inr (array_sort (byCreatedDesc sample_getTime)
       (allDownloads [sample_torrent 1 ''film'' 1 False ''2024-01-02'']
          [sample_download 2 ''debian.iso'' (2 / 5) False ''2024-01-03''] []))"
  using
    fetchAllDownloads_all_or_nothing [of sample_getTime
      "sample_api (Inr [sample_torrent 1 ''film'' 1 False ''2024-01-02''])
         (Inl (ThrownError ''timeout'')) (Inr []) (Inr ())" "''key''"]
    fetchAllDownloads_all_or_nothing [of sample_getTime
      "sample_api (Inr [sample_torrent 1 ''film'' 1 False ''2024-01-02''])
         (Inr [sample_download 2 ''debian.iso'' (2 / 5) False ''2024-01-03'']) (Inr []) (Inr ())"
      "''key''"]
  by (auto simp: sample_api_def)


subsection \<open>Search\<close>

lemma includes_str_iff: "includes_str s t = (\<exists>before after. s = before @ t @ after)"
  by (simp add: includes_str_def sublist_def)

text \<open>With items present, the visible list is the filter by the lower-cased name, for every
  search text: every name includes the empty text.\<close>

lemma filteredDownloads_filter:
  "filteredDownloads (Some items) q =
     filter (\<lambda>d. includes_str (toLowerCase (name d)) (toLowerCase q)) items"
  by (cases q) (simp_all add: filteredDownloads_def includes_str_def toLowerCase_def Let_def)

lemma toLowerCase_samples:
  "toLowerCase ''ISO'' = ''iso''"
  "toLowerCase ''Debian-12.ISO'' = ''debian-12.iso''"
  "toLowerCase ''film.mkv'' = ''film.mkv''"
  "toLowerCase ''ubuntu.iso'' = ''ubuntu.iso''"
  by code_simp+

text \<open>
  C6. For every list of items and every search text: the empty text gives the items
  unchanged; the result is a subsequence of the items, in their order; the lower-cased name
  of every item of the result includes the lower-cased search text; and filtering the result
  again with the same text gives the result.
\<close>

theorem filteredDownloads_laws:
  "filteredDownloads (Some items) '''' = items \<and>
   subseq (filteredDownloads (Some items) q) items \<and>
   (\<forall>d \<in> set (filteredDownloads (Some items) q).
      includes_str (toLowerCase (name d)) (toLowerCase q)) \<and>
   filteredDownloads (Some (filteredDownloads (Some items) q)) q =
     filteredDownloads (Some items) q"
proof -
  have "filteredDownloads (Some items) '''' = items"
    by (simp add: filteredDownloads_def)
  moreover have "subseq (filteredDownloads (Some items) q) items"
    by (simp add: filteredDownloads_filter)
  moreover have "\<forall>d \<in> set (filteredDownloads (Some items) q).
      includes_str (toLowerCase (name d)) (toLowerCase q)"
    by (simp add: filteredDownloads_filter)
  moreover have "filteredDownloads (Some (filteredDownloads (Some items) q)) q =
     filteredDownloads (Some items) q"
    by (simp add: filteredDownloads_filter)
  ultimately show ?thesis by blast
qed

lemma filteredDownloads_sample:
  "filteredDownloads
     (Some [sample_tagged 1 ''Debian-12.ISO'' 1 True ''2024-01-03'' TypeWebdl,
            sample_tagged 2 ''film.mkv'' 1 True ''2024-01-02'' TypeTorrent,
            sample_tagged 3 ''ubuntu.iso'' (2 / 5) False ''2024-01-01'' TypeUsenet]) ''ISO'' =
   [sample_tagged 1 ''Debian-12.ISO'' 1 True ''2024-01-03'' TypeWebdl,
    sample_tagged 3 ''ubuntu.iso'' (2 / 5) False ''2024-01-01'' TypeUsenet]"
  by (simp add: filteredDownloads_def Let_def sample_tagged_def toLowerCase_samples
      includes_str_def sublist_code)

theorem filteredDownloads_laws_witness:
  "subseq
     [sample_tagged 1 ''Debian-12.ISO'' 1 True ''2024-01-03'' TypeWebdl,
      sample_tagged 3 ''ubuntu.iso'' (2 / 5) False ''2024-01-01'' TypeUsenet]
     [sample_tagged 1 ''Debian-12.ISO'' 1 True ''2024-01-03'' TypeWebdl,
      sample_tagged 2 ''film.mkv'' 1 True ''2024-01-02'' TypeTorrent,
      sample_tagged 3 ''ubuntu.iso'' (2 / 5) False ''2024-01-01'' TypeUsenet] \<and>
   includes_str
     (toLowerCase (name (sample_tagged 1 ''Debian-12.ISO'' 1 True ''2024-01-03'' TypeWebdl)))
     (toLowerCase ''ISO'') \<and>
   includes_str
     (toLowerCase (name (sample_tagged 3 ''ubuntu.iso'' (2 / 5) False ''2024-01-01'' TypeUsenet)))
     (toLowerCase ''ISO'') \<and>
   filteredDownloads
     (Some [sample_tagged 1 ''Debian-12.ISO'' 1 True ''2024-01-03'' TypeWebdl,
            sample_tagged 3 ''ubuntu.iso'' (2 / 5) False ''2024-01-01'' TypeUsenet]) ''ISO'' =
   [sample_tagged 1 ''Debian-12.ISO'' 1 True ''2024-01-03'' TypeWebdl,
    sample_tagged 3 ''ubuntu.iso'' (2 / 5) False ''2024-01-01'' TypeUsenet]"
  using filteredDownloads_laws
    [of "[sample_tagged 1 ''Debian-12.ISO'' 1 True ''2024-01-03'' TypeWebdl,
          sample_tagged 2 ''film.mkv'' 1 True ''2024-01-02'' TypeTorrent,
          sample_tagged 3 ''ubuntu.iso'' (2 / 5) False ''2024-01-01'' TypeUsenet]" "''ISO''"]
  by (simp only: filteredDownloads_sample list.set ball_simps simp_thms)

text \<open>
  C10. While the items are absent, the visible list is empty for every search text, the
  empty one included, and no row is rendered; the empty text gives the items back only once
  they are present.
\<close>

theorem filteredDownloads_absent:
  "filteredDownloads None searchText = [] \<and>
   filteredDownloads None '''' = [] \<and>
   rows (snd (Command api apiKey (st\<lparr>hook_data := None\<rparr>) searchText)) = []"
  by (simp add: filteredDownloads_def Command_def Let_def)

subsection \<open>Actions\<close>

text \<open>
  C7. For every download, the action that copies the link is among the actions of its row
  if and only if the download is finished or its progress is at least 1, which is the
  condition under which the status tag reads \<open>Ready\<close>; on any other download the first
  section of the panel is empty, the action is not there.
\<close>

theorem copy_link_offered_iff_ready:
  "((\<exists>a \<in> set (concat (actions (DownloadListItem api apiKey d))).
       action_title a = ''Copy Download Link'') =
    (download_finished d \<or> progress d \<ge> 1)) \<and>
   ((download_finished d \<or> progress d \<ge> 1) = (tag_value (getStatusTag d) = ''Ready'')) \<and>
   map (map action_title) (actions (DownloadListItem api apiKey d)) =
     (if tag_value (getStatusTag d) = ''Ready''
      then [[''Copy Download Link''], [''Refresh All Downloads'', ''Delete Download'']]
      else [[], [''Refresh All Downloads'', ''Delete Download'']])"
  by (simp add: DownloadListItem_def Let_def getStatusTag_def append_percent_not_Ready)

text \<open>A row that is not ready and one that is.\<close>

lemma DownloadListItem_sample:
  "item_subtitle (DownloadListItem api ''key''
     (sample_tagged 2 ''debian.iso'' (2 / 5) False ''2024-01-03'' TypeWebdl)) =
     ''1.5 KB '' @ [CHR 0xC2, CHR 0xB7] @ '' Web'' \<and>
   accessories (DownloadListItem api ''key''
     (sample_tagged 2 ''debian.iso'' (2 / 5) False ''2024-01-03'' TypeWebdl)) =
     [\<lparr>tag_value = ''40%'', tag_color = Orange\<rparr>] \<and>
   map (map action_title) (actions (DownloadListItem api ''key''
     (sample_tagged 2 ''debian.iso'' (2 / 5) False ''2024-01-03'' TypeWebdl))) =
     [[], [''Refresh All Downloads'', ''Delete Download'']] \<and>
   map (map action_title) (actions (DownloadListItem api ''key''
     (sample_tagged 1 ''film'' 1 False ''2024-01-02'' TypeTorrent))) =
     [[''Copy Download Link''], [''Refresh All Downloads'', ''Delete Download'']]"
  by (simp add: DownloadListItem_def Let_def getStatusTag_forty getStatusTag_progress_one)
    (simp add: sample_tagged_def formatBytes_1536)

text \<open>
  C8. The handler of the delete action shows the pending toast and calls the remote delete
  with the type and the id of the item. When the call succeeds it shows the success toast
  and then refreshes; when it fails it shows the failure toast with the message of the error
  (the text \<open>Unknown error\<close> for a value that is not an \<open>Error\<close>) and does not refresh.
\<close>

theorem deleteAction_trace:
  "(deleteDownload api apiKey (dtype d) (id_d d) = Inr () \<longrightarrow>
      deleteAction api apiKey d =
        [ShowToast \<lparr>toast_style = Animated, toast_title = ''Deleting download...'',
                     toast_message = None\<rparr>,
         CallDeleteDownload apiKey (dtype d) (id_d d),
         ShowToast \<lparr>toast_style = Success, toast_title = ''Download deleted'',
                     toast_message = None\<rparr>,
         OnRefresh]) \<and>
   (\<forall>e. deleteDownload api apiKey (dtype d) (id_d d) = Inl e \<longrightarrow>
      deleteAction api apiKey d =
        [ShowToast \<lparr>toast_style = Animated, toast_title = ''Deleting download...'',
                     toast_message = None\<rparr>,
         CallDeleteDownload apiKey (dtype d) (id_d d),
         ShowToast \<lparr>toast_style = Failure, toast_title = ''Failed to delete download'',
                     toast_message = Some (error_message e)\<rparr>] \<and>
      OnRefresh \<notin> set (deleteAction api apiKey d)) \<and>
   (\<forall>m. error_message (ThrownError m) = m) \<and>
   onAction (last (concat (actions (DownloadListItem api apiKey d)))) = deleteAction api apiKey d"
  by (simp add: deleteAction_def error_message_def DownloadListItem_def Let_def)

theorem deleteAction_trace_witness:
  "deleteDownload (sample_api (Inr []) (Inr []) (Inr []) (Inr ())) ''key'' TypeWebdl 7 = Inr () \<and>
   deleteAction (sample_api (Inr []) (Inr []) (Inr []) (Inr ())) ''key''
       (sample_tagged 7 ''debian.iso'' (2 / 5) False ''2024-01-03'' TypeWebdl) =
     [ShowToast \<lparr>toast_style = Animated, toast_title = ''Deleting download...'',
                  toast_message = None\<rparr>,
      CallDeleteDownload ''key'' TypeWebdl 7,
      ShowToast \<lparr>toast_style = Success, toast_title = ''Download deleted'',
                  toast_message = None\<rparr>,
      OnRefresh] \<and>
   deleteDownload (sample_api (Inr []) (Inr []) (Inr []) (Inl (ThrownError ''not found'')))
       ''key'' TypeWebdl 7 = Inl (ThrownError ''not found'') \<and>
   deleteAction (sample_api (Inr []) (Inr []) (Inr []) (Inl (ThrownError ''not found''))) ''key''
       (sample_tagged 7 ''debian.iso'' (2 / 5) False ''2024-01-03'' TypeWebdl) =
     [ShowToast \<lparr>toast_style = Animated, toast_title = ''Deleting download...'',
                  toast_message = None\<rparr>,
      CallDeleteDownload ''key'' TypeWebdl 7,
      ShowToast \<lparr>toast_style = Failure, toast_title = ''Failed to delete download'',
                  toast_message = Some ''not found''\<rparr>]"
  using
    deleteAction_trace [of "sample_api (Inr []) (Inr []) (Inr []) (Inr ())" "''key''"
      "sample_tagged 7 ''debian.iso'' (2 / 5) False ''2024-01-03'' TypeWebdl"]
    deleteAction_trace [of "sample_api (Inr []) (Inr []) (Inr []) (Inl (ThrownError ''not found''))"
      "''key''" "sample_tagged 7 ''debian.iso'' (2 / 5) False ''2024-01-03'' TypeWebdl"]
  by (simp add: sample_api_def sample_tagged_def)

subsection \<open>The list after a failed fetch\<close>

text \<open>
  C9. When a fetch fails, on mount or on a refresh of any held state, the error is set, the
  render shows the failure toast with the message of the error, and the items held before are
  kept: the rows after the failed refresh are the rows before it.
\<close>

theorem failed_fetch_keeps_items:
  assumes "fetchAllDownloads getTime api apiKey = Inl e"
  shows "hook_error (hook_settle (hook_revalidate st) (fetchAllDownloads getTime api apiKey)) =
       Some e \<and>
     hook_data (hook_settle (hook_revalidate st) (fetchAllDownloads getTime api apiKey)) =
       hook_data st \<and>
     fst (Command api apiKey
            (hook_settle (hook_revalidate st) (fetchAllDownloads getTime api apiKey)) q) =
       [ShowToast \<lparr>toast_style = Failure, toast_title = ''Failed to fetch downloads'',
          toast_message = (case e of ThrownError m \<Rightarrow> Some m | ThrownOther \<Rightarrow> None)\<rparr>] \<and>
     rows (snd (Command api apiKey
            (hook_settle (hook_revalidate st) (fetchAllDownloads getTime api apiKey)) q)) =
       rows (snd (Command api apiKey st q)) \<and>
     hook_error (hook_settle hook_mount (fetchAllDownloads getTime api apiKey)) = Some e \<and>
     rows (snd (Command api apiKey
            (hook_settle hook_mount (fetchAllDownloads getTime api apiKey)) q)) = []"
  using assms
  by (simp add: hook_settle_def hook_revalidate_def hook_mount_def Command_def Let_def
      filteredDownloads_def)

lemma failed_fetch_sample:
  "fetchAllDownloads sample_getTime
     (sample_api (Inr [sample_torrent 1 ''film'' 1 False ''2024-01-02''])
        (Inl (ThrownError ''timeout'')) (Inr []) (Inr ())) ''key'' = Inl (ThrownError ''timeout'')"
  by (simp add: fetchAllDownloads_def Promise_all3_def sample_api_def)

theorem failed_fetch_keeps_items_witness:
  "fetchAllDownloads sample_getTime
     (sample_api (Inr [sample_torrent 1 ''film'' 1 False ''2024-01-02''])
        (Inl (ThrownError ''timeout'')) (Inr []) (Inr ())) ''key'' = Inl (ThrownError ''timeout'') \<and>
   hook_data (hook_settle
       (hook_revalidate
          \<lparr>hook_data = Some [sample_tagged 1 ''film'' 1 False ''2024-01-02'' TypeTorrent],
           hook_isLoading = False, hook_error = None\<rparr>)
       (Inl (ThrownError ''timeout''))) =
     Some [sample_tagged 1 ''film'' 1 False ''2024-01-02'' TypeTorrent] \<and>
   fst (Command
       (sample_api (Inr [sample_torrent 1 ''film'' 1 False ''2024-01-02''])
          (Inl (ThrownError ''timeout'')) (Inr []) (Inr ())) ''key''
       (hook_settle
          (hook_revalidate
             \<lparr>hook_data = Some [sample_tagged 1 ''film'' 1 False ''2024-01-02'' TypeTorrent],
              hook_isLoading = False, hook_error = None\<rparr>)
          (Inl (ThrownError ''timeout''))) ''fi'') =
     [ShowToast \<lparr>toast_style = Failure, toast_title = ''Failed to fetch downloads'',
        toast_message = Some ''timeout''\<rparr>]"
  using failed_fetch_keeps_items [OF failed_fetch_sample,
      of "\<lparr>hook_data = Some [sample_tagged 1 ''film'' 1 False ''2024-01-02'' TypeTorrent],
            hook_isLoading = False, hook_error = None\<rparr>" "''fi''"]
  by (simp add: failed_fetch_sample)


end
